theory Spec2Isabelle
  imports Complex_Main "HOL-Library.Sublist"
begin

section \<open>Data model\<close>

text \<open>
  The store behind the controllers (the Prisma client) is a record of tables. The
  product table is a map from the product id to the row; the sale table is the list of
  its rows, each with its line items (it is searched by id, and by sale number for the
  unique constraint); the inventory log and the audit log are append-only lists, oldest
  entry first. Quantities are integers (Prisma
  \<open>Int\<close>), money is an exact number (\<open>Prisma.Decimal\<close>, taken here as a
  rational: the decimal library itself is not part of the repository).
\<close>

datatype SaleStatus = PENDING | COMPLETED | CANCELLED | REFUNDED

datatype PaymentMethod = CASH | CARD | DIGITAL_WALLET | BANK_TRANSFER

datatype InventoryLogType = STOCK_IN | STOCK_OUT | SALE | RETURN | DAMAGE | ADJUSTMENT

record Product =
  p_name :: string
  p_sku :: string
  p_quantity :: int
  p_price :: rat
  p_costPrice :: rat
  p_isActive :: bool

record InventoryLog =
  log_type :: InventoryLogType
  log_quantity :: int
  log_previousStock :: int
  log_newStock :: int
  log_reason :: string
  log_productId :: string
  log_performedById :: string
  log_saleId :: "string option"

record SaleItem =
  item_productId :: string
  item_quantity :: int
  item_unitPrice :: rat
  item_totalPrice :: rat

record Sale =
  sale_id :: string
  sale_saleNumber :: string
  sale_totalAmount :: rat
  sale_taxAmount :: rat
  sale_discount :: rat
  sale_finalAmount :: rat
  sale_paymentMethod :: PaymentMethod
  sale_status :: SaleStatus
  sale_staffId :: string
  sale_customerId :: "string option"
  sale_items :: "SaleItem list"
  sale_updatedAt :: nat

record AuditLog =
  audit_userId :: string
  audit_action :: string
  audit_resource :: string
  audit_resourceId :: string

record db =
  products :: "string \<rightharpoonup> Product"
  inventoryLogs :: "InventoryLog list"
  sales :: "Sale list"
  customers :: "string set"
  auditLogs :: "AuditLog list"

text \<open>What a handler throws: a plain \<open>Error\<close> with its message, or Prisma's
  \<open>PrismaClientKnownRequestError\<close> with its code and its message.\<close>

datatype exn = Error string | PrismaClientKnownRequestError string string

text \<open>The two known request errors of the store that the model can raise, with Prisma's
  code first and a message after it: a row to update that is missing, and a unique
  constraint that fails.\<close>

definition P2025 :: exn where
  "P2025 = PrismaClientKnownRequestError ''P2025'' ''Record to update not found.''"

definition P2002 :: exn where
  "P2002 = PrismaClientKnownRequestError ''P2002'' ''Unique constraint failed''"

text \<open>The payload of a response and the response \<open>sendResponse\<close> builds. The
  \<open>select\<close> clauses of the source pick some columns of a row; the model returns the
  whole row.\<close>

datatype Payload =
    StockResult Product InventoryLog
  | AdjustResult Product InventoryLog InventoryLogType int
  | SaleResult Sale

datatype Response = Response (statusCode: nat) (message: string) (data: "Payload option")

definition success :: "Response \<Rightarrow> bool" where
  "success r = (200 \<le> statusCode r \<and> statusCode r < 300)"

definition sendResponse :: "nat \<Rightarrow> string \<Rightarrow> Payload option \<Rightarrow> Response" where
  "sendResponse code msg d = Response code msg d"

section \<open>JavaScript truthiness of request fields\<close>

text \<open>A request field may be absent (\<open>None\<close>). \<open>!x\<close> holds of an absent field, of
  the empty string and of the number 0.\<close>

definition falsy_str :: "string option \<Rightarrow> bool" where
  "falsy_str x = (case x of None \<Rightarrow> True | Some v \<Rightarrow> v = [])"

definition falsy_int :: "int option \<Rightarrow> bool" where
  "falsy_int x = (case x of None \<Rightarrow> True | Some v \<Rightarrow> v = 0)"

definition falsy_dec :: "rat option \<Rightarrow> bool" where
  "falsy_dec x = (case x of None \<Rightarrow> True | Some v \<Rightarrow> v = 0)"

text \<open>\<open>String.prototype.includes\<close>.\<close>

definition str_includes :: "string \<Rightarrow> string \<Rightarrow> bool" where
  "str_includes s sub = sublist sub s"

text \<open>Template literals print an integer in decimal.\<close>

function showNat :: "nat \<Rightarrow> string" where
  "showNat n = (if n < 10 then [char_of (48 + n)]
                else showNat (n div 10) @ [char_of (48 + n mod 10)])"
  by pat_completeness auto
termination
  by (relation "measure id") auto

definition showInt :: "int \<Rightarrow> string" where
  "showInt i = (if i < 0 then CHR ''-'' # showNat (nat (- i)) else showNat (nat i))"

section \<open>The audit sink\<close>

text \<open>\<open>createAuditLog\<close> (globals/helper.ts) inserts one audit row and swallows its own
  failures; it never touches products, inventory logs or sales. The row keeps who, what
  and on which resource; the description text and the old/new data are left out.\<close>

definition createAuditLog :: "string \<Rightarrow> string \<Rightarrow> string \<Rightarrow> string \<Rightarrow> db \<Rightarrow> db" where
  "createAuditLog userId act resource resourceId s =
     s\<lparr>auditLogs := auditLogs s @
        [\<lparr>audit_userId = userId, audit_action = act,
          audit_resource = resource, audit_resourceId = resourceId\<rparr>]\<rparr>"

text \<open>\<open>product.findUnique({ where: { id, isActive: true } })\<close>.\<close>

definition findActiveProduct :: "db \<Rightarrow> string \<Rightarrow> Product option" where
  "findActiveProduct s pid =
     (case products s pid of
        None \<Rightarrow> None
      | Some p \<Rightarrow> if p_isActive p then Some p else None)"

section \<open>Inventory controller (compiled JavaScript)\<close>

text \<open>
  Each handler validates, reads the product once outside the transaction, computes
  \<open>previousStock\<close> and \<open>newStock\<close> from that read, and then runs a transaction that
  reads the product again, checks it, writes \<open>newStock\<close> and inserts the log entry.
  A function named \<open>_tx\<close> is the callback handed to \<open>prisma.$transaction\<close>, with the
  variables it captures as arguments: it returns what the callback returns or throws,
  and the store; when it throws, the store is the one it started from (the rollback).
  \<open>product.update({ where: { id } })\<close> throws P2025 when the row is missing.
  The handlers below run from start to end with nothing interleaved, so both reads see
  the same store.
\<close>

definition stockIn_tx ::
  "string \<Rightarrow> string \<Rightarrow> int \<Rightarrow> string \<Rightarrow> rat option \<Rightarrow> int \<Rightarrow> int \<Rightarrow> db
     \<Rightarrow> (exn + Payload) \<times> db" where
  "stockIn_tx userId productId quantity reason costPrice previousStock newStock s =
     (case findActiveProduct s productId of
        None \<Rightarrow> (Inl (Error ''Product not found or inactive''), s)
      | Some lockedProduct \<Rightarrow>
          (case products s productId of
             None \<Rightarrow> (Inl P2025, s)
           | Some row \<Rightarrow>
               let updatedProduct =
                     (if falsy_dec costPrice then row\<lparr>p_quantity := newStock\<rparr>
                      else row\<lparr>p_quantity := newStock, p_costPrice := the costPrice\<rparr>);
                   inventoryLog =
                     \<lparr>log_type = STOCK_IN, log_quantity = quantity,
                      log_previousStock = previousStock, log_newStock = newStock,
                      log_reason = reason, log_productId = productId,
                      log_performedById = userId, log_saleId = None\<rparr>
               in (Inr (StockResult updatedProduct inventoryLog),
                   s\<lparr>products := (products s)(productId \<mapsto> updatedProduct),
                     inventoryLogs := inventoryLogs s @ [inventoryLog]\<rparr>)))"

definition stockIn_catch :: "exn \<Rightarrow> Response" where
  "stockIn_catch e =
     (case e of
        Error msg \<Rightarrow>
          if msg = ''Product not found or inactive''
          then sendResponse 404 ''Product not found or inactive'' None
          else sendResponse 500 ''Internal server error'' None
      | PrismaClientKnownRequestError c m \<Rightarrow> sendResponse 500 ''Internal server error'' None)"

definition stockIn ::
  "string option \<Rightarrow> string option \<Rightarrow> int option \<Rightarrow> string option \<Rightarrow> rat option \<Rightarrow> db
     \<Rightarrow> Response \<times> db" where
  "stockIn userId productId quantity reason costPrice s =
     (if falsy_str userId then (sendResponse 400 ''Authentication required'' None, s)
      else if falsy_str productId \<or> falsy_int quantity
        then (sendResponse 400 ''Product ID and quantity are required'' None, s)
      else if the quantity \<le> 0
        then (sendResponse 400 ''Quantity must be greater than 0'' None, s)
      else
        (case findActiveProduct s (the productId) of
           None \<Rightarrow> (sendResponse 404 ''Product not found or inactive'' None, s)
         | Some product \<Rightarrow>
             let previousStock = p_quantity product;
                 newStock = previousStock + the quantity
             in
               (case stockIn_tx (the userId) (the productId) (the quantity)
                       (case reason of None \<Rightarrow> ''Stock in'' | Some r \<Rightarrow> r)
                       costPrice previousStock newStock s of
                  (Inl e, s1) \<Rightarrow> (stockIn_catch e, s)
                | (Inr result, s1) \<Rightarrow>
                    (sendResponse 200 ''Stock added successfully'' (Some result),
                     createAuditLog (the userId) ''STOCK_IN'' ''Product'' (the productId) s1))))"

text \<open>\<open>stockOut\<close>: the transaction is written in two parts, its read with the checks
  and its writes, so that the interleaving of two calls can be described below.\<close>

definition stockOut_txRead :: "string \<Rightarrow> int \<Rightarrow> db \<Rightarrow> exn + Product" where
  "stockOut_txRead productId quantity s =
     (case findActiveProduct s productId of
        None \<Rightarrow> Inl (Error ''Product not found or inactive'')
      | Some lockedProduct \<Rightarrow>
          if p_quantity lockedProduct < quantity then Inl (Error ''Insufficient stock'')
          else Inr lockedProduct)"

definition stockOut_txWrite ::
  "string \<Rightarrow> string \<Rightarrow> int \<Rightarrow> string \<Rightarrow> int \<Rightarrow> int \<Rightarrow> db \<Rightarrow> (exn + Payload) \<times> db" where
  "stockOut_txWrite userId productId quantity reason previousStock newStock s =
     (case products s productId of
        None \<Rightarrow> (Inl P2025, s)
      | Some row \<Rightarrow>
          let updatedProduct = row\<lparr>p_quantity := newStock\<rparr>;
              inventoryLog =
                \<lparr>log_type = STOCK_OUT, log_quantity = quantity,
                 log_previousStock = previousStock, log_newStock = newStock,
                 log_reason = reason, log_productId = productId,
                 log_performedById = userId, log_saleId = None\<rparr>
          in (Inr (StockResult updatedProduct inventoryLog),
              s\<lparr>products := (products s)(productId \<mapsto> updatedProduct),
                inventoryLogs := inventoryLogs s @ [inventoryLog]\<rparr>))"

definition stockOut_tx ::
  "string \<Rightarrow> string \<Rightarrow> int \<Rightarrow> string \<Rightarrow> int \<Rightarrow> int \<Rightarrow> db \<Rightarrow> (exn + Payload) \<times> db" where
  "stockOut_tx userId productId quantity reason previousStock newStock s =
     (case stockOut_txRead productId quantity s of
        Inl e \<Rightarrow> (Inl e, s)
      | Inr lockedProduct \<Rightarrow>
          stockOut_txWrite userId productId quantity reason previousStock newStock s)"

definition stockOut_catch :: "exn \<Rightarrow> Response" where
  "stockOut_catch e =
     (case e of
        Error msg \<Rightarrow>
          if msg = ''Product not found or inactive''
          then sendResponse 404 ''Product not found or inactive'' None
          else if msg = ''Insufficient stock''
          then sendResponse 400 ''Insufficient stock'' None
          else sendResponse 500 ''Internal server error'' None
      | PrismaClientKnownRequestError c m \<Rightarrow> sendResponse 500 ''Internal server error'' None)"

definition stockOut ::
  "string option \<Rightarrow> string option \<Rightarrow> int option \<Rightarrow> string option \<Rightarrow> db \<Rightarrow> Response \<times> db" where
  "stockOut userId productId quantity reason s =
     (if falsy_str userId then (sendResponse 400 ''Authentication required'' None, s)
      else if falsy_str productId \<or> falsy_int quantity
        then (sendResponse 400 ''Product ID and quantity are required'' None, s)
      else if the quantity \<le> 0
        then (sendResponse 400 ''Quantity must be greater than 0'' None, s)
      else
        (case findActiveProduct s (the productId) of
           None \<Rightarrow> (sendResponse 404 ''Product not found or inactive'' None, s)
         | Some product \<Rightarrow>
             let previousStock = p_quantity product in
               if previousStock < the quantity
               then (sendResponse 400 ''Insufficient stock'' None, s)
               else
                 let newStock = previousStock - the quantity in
                   (case stockOut_tx (the userId) (the productId) (the quantity)
                           (case reason of None \<Rightarrow> ''Stock out'' | Some r \<Rightarrow> r)
                           previousStock newStock s of
                      (Inl e, s1) \<Rightarrow> (stockOut_catch e, s)
                    | (Inr result, s1) \<Rightarrow>
                        (sendResponse 200 ''Stock removed successfully'' (Some result),
                         createAuditLog (the userId) ''STOCK_OUT'' ''Product''
                           (the productId) s1))))"




text \<open>
  \<open>createSaleInventoryLog\<close> is the ledger entry point of the sale controller. It
  looks the product up by id alone (an inactive product is found), works on the global
  client, so its transaction is its own and commits when it ends, and rethrows what it
  catches: the result is \<open>Inl\<close> the exception or \<open>Inr ()\<close>.
\<close>

definition createSaleInventoryLog_tx ::
  "string \<Rightarrow> int \<Rightarrow> string \<Rightarrow> string \<Rightarrow> InventoryLogType \<Rightarrow> int \<Rightarrow> int \<Rightarrow> db
     \<Rightarrow> (exn + unit) \<times> db" where
  "createSaleInventoryLog_tx productId quantity saleId userId type previousStock newStock s =
     (case products s productId of
        None \<Rightarrow> (Inl (Error (''Product '' @ productId @ '' not found'')), s)
      | Some lockedProduct \<Rightarrow>
          if type = SALE \<and> p_quantity lockedProduct < quantity
          then (Inl (Error (''Insufficient stock for product '' @ productId)), s)
          else
            (Inr (),
             s\<lparr>products := (products s)(productId \<mapsto> lockedProduct\<lparr>p_quantity := newStock\<rparr>),
               inventoryLogs := inventoryLogs s @
                 [\<lparr>log_type = type, log_quantity = quantity,
                   log_previousStock = previousStock, log_newStock = newStock,
                   log_reason = (if type = SALE then ''Sale'' else ''Product return''),
                   log_productId = productId, log_performedById = userId,
                   log_saleId = Some saleId\<rparr>]\<rparr>))"

definition createSaleInventoryLog ::
  "string \<Rightarrow> int \<Rightarrow> string \<Rightarrow> string \<Rightarrow> InventoryLogType \<Rightarrow> db \<Rightarrow> (exn + unit) \<times> db" where
  "createSaleInventoryLog productId quantity saleId userId type s =
     (case products s productId of
        None \<Rightarrow> (Inl (Error (''Product '' @ productId @ '' not found'')), s)
      | Some product \<Rightarrow>
          let previousStock = p_quantity product in
            if type = SALE \<and> previousStock < quantity
            then (Inl (Error (''Insufficient stock for product '' @ productId)), s)
            else
              let newStock =
                    (if type = SALE then previousStock - quantity
                     else if type = RETURN then previousStock + quantity
                     else previousStock)
              in
                (case createSaleInventoryLog_tx productId quantity saleId userId type
                        previousStock newStock s of
                   (Inl e, s1) \<Rightarrow> (Inl e, s)
                 | (Inr u, s1) \<Rightarrow>
                     (Inr (),
                      createAuditLog userId
                        (if type = SALE then ''SALE_STOCK_UPDATE'' else ''RETURN_STOCK_UPDATE'')
                        ''Product'' productId s1)))"

section \<open>Inventory controller (TypeScript source)\<close>

text \<open>
  The TypeScript source of the same three handlers reads the product only inside the
  transaction and computes \<open>previousStock\<close> and \<open>newStock\<close> there. It writes no
  audit row.
\<close>

definition stockIn_ts_tx ::
  "string \<Rightarrow> string \<Rightarrow> int \<Rightarrow> string \<Rightarrow> rat option \<Rightarrow> db \<Rightarrow> (exn + Payload) \<times> db" where
  "stockIn_ts_tx userId productId quantity reason costPrice s =
     (case findActiveProduct s productId of
        None \<Rightarrow> (Inl (Error ''Product not found or inactive''), s)
      | Some product \<Rightarrow>
          let previousStock = p_quantity product;
              newStock = previousStock + quantity
          in
            (case products s productId of
               None \<Rightarrow> (Inl P2025, s)
             | Some row \<Rightarrow>
                 let updatedProduct =
                       (if falsy_dec costPrice then row\<lparr>p_quantity := newStock\<rparr>
                        else row\<lparr>p_quantity := newStock, p_costPrice := the costPrice\<rparr>);
                     inventoryLog =
                       \<lparr>log_type = STOCK_IN, log_quantity = quantity,
                        log_previousStock = previousStock, log_newStock = newStock,
                        log_reason = reason, log_productId = productId,
                        log_performedById = userId, log_saleId = None\<rparr>
                 in (Inr (StockResult updatedProduct inventoryLog),
                     s\<lparr>products := (products s)(productId \<mapsto> updatedProduct),
                       inventoryLogs := inventoryLogs s @ [inventoryLog]\<rparr>)))"

definition stockIn_ts ::
  "string option \<Rightarrow> string option \<Rightarrow> int option \<Rightarrow> string option \<Rightarrow> rat option \<Rightarrow> db
     \<Rightarrow> Response \<times> db" where
  "stockIn_ts userId productId quantity reason costPrice s =
     (if falsy_str userId then (sendResponse 400 ''Authentication required'' None, s)
      else if falsy_str productId \<or> falsy_int quantity
        then (sendResponse 400 ''Product ID and quantity are required'' None, s)
      else if the quantity \<le> 0
        then (sendResponse 400 ''Quantity must be greater than 0'' None, s)
      else
        (case stockIn_ts_tx (the userId) (the productId) (the quantity)
                (case reason of None \<Rightarrow> ''Stock in'' | Some r \<Rightarrow> r) costPrice s of
           (Inl e, s1) \<Rightarrow> (stockIn_catch e, s)
         | (Inr result, s1) \<Rightarrow>
             (sendResponse 200 ''Stock added successfully'' (Some result), s1)))"

definition stockOut_ts_tx ::
  "string \<Rightarrow> string \<Rightarrow> int \<Rightarrow> string \<Rightarrow> db \<Rightarrow> (exn + Payload) \<times> db" where
  "stockOut_ts_tx userId productId quantity reason s =
     (case findActiveProduct s productId of
        None \<Rightarrow> (Inl (Error ''Product not found or inactive''), s)
      | Some product \<Rightarrow>
          let previousStock = p_quantity product in
            if previousStock < quantity then (Inl (Error ''Insufficient stock''), s)
            else
              let newStock = previousStock - quantity in
                (case products s productId of
                   None \<Rightarrow> (Inl P2025, s)
                 | Some row \<Rightarrow>
                     let updatedProduct = row\<lparr>p_quantity := newStock\<rparr>;
                         inventoryLog =
                           \<lparr>log_type = STOCK_OUT, log_quantity = quantity,
                            log_previousStock = previousStock, log_newStock = newStock,
                            log_reason = reason, log_productId = productId,
                            log_performedById = userId, log_saleId = None\<rparr>
                     in (Inr (StockResult updatedProduct inventoryLog),
                         s\<lparr>products := (products s)(productId \<mapsto> updatedProduct),
                           inventoryLogs := inventoryLogs s @ [inventoryLog]\<rparr>)))"

definition stockOut_ts ::
  "string option \<Rightarrow> string option \<Rightarrow> int option \<Rightarrow> string option \<Rightarrow> db \<Rightarrow> Response \<times> db" where
  "stockOut_ts userId productId quantity reason s =
     (if falsy_str userId then (sendResponse 400 ''Authentication required'' None, s)
      else if falsy_str productId \<or> falsy_int quantity
        then (sendResponse 400 ''Product ID and quantity are required'' None, s)
      else if the quantity \<le> 0
        then (sendResponse 400 ''Quantity must be greater than 0'' None, s)
      else
        (case stockOut_ts_tx (the userId) (the productId) (the quantity)
                (case reason of None \<Rightarrow> ''Stock out'' | Some r \<Rightarrow> r) s of
           (Inl e, s1) \<Rightarrow> (stockOut_catch e, s)
         | (Inr result, s1) \<Rightarrow>
             (sendResponse 200 ''Stock removed successfully'' (Some result), s1)))"

definition createSaleInventoryLog_ts ::
  "string \<Rightarrow> int \<Rightarrow> string \<Rightarrow> string \<Rightarrow> InventoryLogType \<Rightarrow> db \<Rightarrow> (exn + unit) \<times> db" where
  "createSaleInventoryLog_ts productId quantity saleId userId type s =
     (case products s productId of
        None \<Rightarrow> (Inl (Error (''Product '' @ productId @ '' not found'')), s)
      | Some product \<Rightarrow>
          let previousStock = p_quantity product in
            if type = SALE \<and> previousStock < quantity
            then (Inl (Error (''Insufficient stock for product '' @ productId)), s)
            else
              let newStock =
                    (if type = SALE then previousStock - quantity
                     else if type = RETURN then previousStock + quantity
                     else previousStock)
              in
                (Inr (),
                 s\<lparr>products := (products s)(productId \<mapsto> product\<lparr>p_quantity := newStock\<rparr>),
                   inventoryLogs := inventoryLogs s @
                     [\<lparr>log_type = type, log_quantity = quantity,
                       log_previousStock = previousStock, log_newStock = newStock,
                       log_reason = (if type = SALE then ''Sale'' else ''Product return''),
                       log_productId = productId, log_performedById = userId,
                       log_saleId = Some saleId\<rparr>]\<rparr>))"

section \<open>Sale controller\<close>

text \<open>
  An item of the request. An absent \<open>productId\<close> or \<open>quantity\<close> is the empty string
  or 0: the handler tests both with \<open>!\<close> and treats them alike; an \<open>items\<close> field
  that is absent or no array is the empty list. The optional
  \<open>unitPrice\<close> is tested for truthiness, so an absent price and a price of 0 take the
  same branch.
\<close>

record SaleItemInput =
  in_productId :: string
  in_quantity :: int
  in_unitPrice :: "rat option"

text \<open>The first loop of the transaction: for each item, in the order of the request,
  read the active product, check the stock, fix the unit price and add the line total.\<close>

fun saleItemsLoop ::
  "db \<Rightarrow> SaleItemInput list \<Rightarrow> rat \<Rightarrow> SaleItem list \<Rightarrow> exn + rat \<times> SaleItem list" where
  "saleItemsLoop s [] totalAmount saleItemsData = Inr (totalAmount, saleItemsData)"
| "saleItemsLoop s (item # rest) totalAmount saleItemsData =
     (case findActiveProduct s (in_productId item) of
        None \<Rightarrow> Inl (Error (''Product '' @ in_productId item @ '' not found or inactive''))
      | Some product \<Rightarrow>
          if p_quantity product < in_quantity item
          then Inl (Error (''Insufficient stock for '' @ p_name product @
                       ''. Available: '' @ showInt (p_quantity product) @
                       '', Requested: '' @ showInt (in_quantity item)))
          else
            let unitPrice = (if falsy_dec (in_unitPrice item) then p_price product
                             else the (in_unitPrice item));
                totalPrice = unitPrice * of_int (in_quantity item)
            in saleItemsLoop s rest (totalAmount + totalPrice)
                 (saleItemsData @
                    [\<lparr>item_productId = in_productId item, item_quantity = in_quantity item,
                      item_unitPrice = unitPrice, item_totalPrice = totalPrice\<rparr>]))"

text \<open>The loop over the ledger calls, one per pair of product id and quantity, in order.
  A call that throws ends the loop; the calls before it have committed.\<close>

fun inventoryLoop ::
  "string \<Rightarrow> string \<Rightarrow> InventoryLogType \<Rightarrow> (string \<times> int) list \<Rightarrow> db \<Rightarrow> (exn + unit) \<times> db" where
  "inventoryLoop saleId userId type [] s = (Inr (), s)"
| "inventoryLoop saleId userId type ((productId, quantity) # rest) s =
     (case createSaleInventoryLog productId quantity saleId userId type s of
        (Inl e, s1) \<Rightarrow> (Inl e, s1)
      | (Inr u, s1) \<Rightarrow> inventoryLoop saleId userId type rest s1)"

text \<open>
  The callback of \<open>createSale\<close>'s transaction. The sale row is written through the
  transaction client, so it is kept only when the callback returns; the ledger calls go
  through \<open>createSaleInventoryLog\<close>, that is through the global client, and what they
  wrote stays when the callback throws. \<open>saleNumber\<close> is what \<open>generateSaleNumber\<close>
  returned and \<open>sid\<close> the id the store gives the new row; a row with the same id or the
  same sale number fails the unique constraint. The store is taken not to check the sale
  reference of a log entry against the sale table.
\<close>

definition createSale_tx ::
  "string \<Rightarrow> string option \<Rightarrow> SaleItemInput list \<Rightarrow> PaymentMethod \<Rightarrow> rat \<Rightarrow> rat \<Rightarrow> string
     \<Rightarrow> string \<Rightarrow> nat \<Rightarrow> db \<Rightarrow> (exn + Sale) \<times> db" where
  "createSale_tx userId customerId items paymentMethod taxAmount discount saleNumber sid now s =
     (case saleItemsLoop s items 0 [] of
        Inl e \<Rightarrow> (Inl e, s)
      | Inr (totalAmount, saleItemsData) \<Rightarrow>
          let finalAmount = totalAmount + taxAmount - discount;
              sale = \<lparr>sale_id = sid, sale_saleNumber = saleNumber,
                      sale_totalAmount = totalAmount, sale_taxAmount = taxAmount,
                      sale_discount = discount, sale_finalAmount = finalAmount,
                      sale_paymentMethod = paymentMethod, sale_status = COMPLETED,
                      sale_staffId = userId,
                      sale_customerId = (if falsy_str customerId then None else customerId),
                      sale_items = saleItemsData, sale_updatedAt = now\<rparr>
          in
            if list_ex (\<lambda>x. sale_id x = sid \<or> sale_saleNumber x = saleNumber) (sales s)
            then (Inl P2002, s)
            else
              (case inventoryLoop sid userId SALE
                      (map (\<lambda>item. (in_productId item, in_quantity item)) items) s of
                 (Inl e, s1) \<Rightarrow> (Inl e, s1)
               | (Inr u, s1) \<Rightarrow> (Inr sale, s1\<lparr>sales := sales s1 @ [sale]\<rparr>)))"

definition exn_message :: "exn \<Rightarrow> string" where
  "exn_message e = (case e of Error msg \<Rightarrow> msg | PrismaClientKnownRequestError c msg \<Rightarrow> msg)"

definition createSale_catch :: "exn \<Rightarrow> Response" where
  "createSale_catch e =
     (if str_includes (exn_message e) ''not found''
        then sendResponse 404 (exn_message e) None
      else if str_includes (exn_message e) ''Insufficient stock''
        then sendResponse 400 (exn_message e) None
      else sendResponse 500 ''Internal server error'' None)"

definition createSale ::
  "string option \<Rightarrow> string option \<Rightarrow> SaleItemInput list \<Rightarrow> PaymentMethod option \<Rightarrow> rat option
     \<Rightarrow> rat option \<Rightarrow> string \<Rightarrow> string \<Rightarrow> nat \<Rightarrow> db \<Rightarrow> Response \<times> db" where
  "createSale userId customerId items paymentMethod taxAmount discount saleNumber sid now s =
     (if falsy_str userId then (sendResponse 400 ''Authentication required'' None, s)
      else if items = [] then (sendResponse 400 ''Sale items are required'' None, s)
      else if paymentMethod = None
        then (sendResponse 400 ''Payment method is required'' None, s)
      else if list_ex (\<lambda>item. in_productId item = [] \<or> in_quantity item = 0
                                \<or> in_quantity item \<le> 0) items
        then (sendResponse 400 ''Each item must have productId and positive quantity'' None, s)
      else if \<not> falsy_str customerId \<and> the customerId \<notin> customers s
        then (sendResponse 404 ''Customer not found'' None, s)
      else
        (case createSale_tx (the userId) customerId items (the paymentMethod)
                (case taxAmount of None \<Rightarrow> 0 | Some v \<Rightarrow> v)
                (case discount of None \<Rightarrow> 0 | Some v \<Rightarrow> v) saleNumber sid now s of
           (Inl e, s1) \<Rightarrow> (createSale_catch e, s1)
         | (Inr result, s1) \<Rightarrow>
             (sendResponse 201 ''Sale created successfully'' (Some (SaleResult result)),
              createAuditLog (the userId) ''SALE_CREATE'' ''Sale'' (sale_id result) s1)))"

subsection \<open>Status changes\<close>

definition statusName :: "SaleStatus \<Rightarrow> string" where
  "statusName st =
     (case st of PENDING \<Rightarrow> ''PENDING'' | COMPLETED \<Rightarrow> ''COMPLETED''
      | CANCELLED \<Rightarrow> ''CANCELLED'' | REFUNDED \<Rightarrow> ''REFUNDED'')"

text \<open>The status of the request body is a string; the store accepts it only when it
  names a value of the enum.\<close>

definition parseStatus :: "string \<Rightarrow> SaleStatus option" where
  "parseStatus str =
     (if str = ''PENDING'' then Some PENDING
      else if str = ''COMPLETED'' then Some COMPLETED
      else if str = ''CANCELLED'' then Some CANCELLED
      else if str = ''REFUNDED'' then Some REFUNDED
      else None)"

definition validTransitions :: "SaleStatus \<Rightarrow> string list" where
  "validTransitions from =
     (case from of
        PENDING \<Rightarrow> [''COMPLETED'', ''CANCELLED'']
      | COMPLETED \<Rightarrow> [''REFUNDED'']
      | CANCELLED \<Rightarrow> []
      | REFUNDED \<Rightarrow> [])"

definition isValidStatusTransition :: "SaleStatus \<Rightarrow> string \<Rightarrow> bool" where
  "isValidStatusTransition from to = (to \<in> set (validTransitions from))"

definition findSale :: "db \<Rightarrow> string \<Rightarrow> Sale option" where
  "findSale s saleId = List.find (\<lambda>x. sale_id x = saleId) (sales s)"

text \<open>
  The callback of \<open>updateSaleStatus\<close>'s transaction (the source's \<open>id\<close> is
  \<open>saleId\<close> here, \<open>id\<close> being the identity function of HOL): the status and the update time
  are written through the transaction client (kept only when the callback returns), the
  restocking goes through \<open>createSaleInventoryLog\<close> for every line item read before
  the transaction. A status that names no value of the enum would be refused by the
  store; after the check of the transition table there is none.
\<close>

definition updateSaleStatus_tx ::
  "string \<Rightarrow> string \<Rightarrow> string \<Rightarrow> Sale \<Rightarrow> nat \<Rightarrow> db \<Rightarrow> (exn + Sale) \<times> db" where
  "updateSaleStatus_tx userId saleId status existingSale now s =
     (case findSale s saleId of
        None \<Rightarrow> (Inl P2025, s)
      | Some row \<Rightarrow>
          (case parseStatus status of
             None \<Rightarrow> (Inl (Error ''Invalid value for argument status''), s)
           | Some st \<Rightarrow>
               let sale = row\<lparr>sale_status := st, sale_updatedAt := now\<rparr> in
                 (case (if status = ''REFUNDED'' \<or> status = ''CANCELLED''
                        then inventoryLoop (sale_id sale) userId RETURN
                               (map (\<lambda>item. (item_productId item, item_quantity item))
                                  (sale_items existingSale)) s
                        else (Inr (), s)) of
                    (Inl e, s1) \<Rightarrow> (Inl e, s1)
                  | (Inr u, s1) \<Rightarrow>
                      (Inr sale,
                       s1\<lparr>sales :=
                            map (\<lambda>x. if sale_id x = saleId
                                     then x\<lparr>sale_status := st, sale_updatedAt := now\<rparr>
                                     else x) (sales s1)\<rparr>))))"

definition updateSaleStatus_catch :: "exn \<Rightarrow> Response" where
  "updateSaleStatus_catch e =
     (case e of
        Error msg \<Rightarrow> sendResponse 500 ''Internal server error'' None
      | PrismaClientKnownRequestError c m \<Rightarrow>
          if c = ''P2025'' then sendResponse 404 ''Sale not found'' None
          else sendResponse 500 ''Internal server error'' None)"

definition updateSaleStatus ::
  "string option \<Rightarrow> string option \<Rightarrow> string option \<Rightarrow> nat \<Rightarrow> db \<Rightarrow> Response \<times> db" where
  "updateSaleStatus userId saleId status now s =
     (if falsy_str userId then (sendResponse 400 ''Authentication required'' None, s)
      else if falsy_str saleId \<or> falsy_str status
        then (sendResponse 400 ''Sale ID and status are required'' None, s)
      else
        (case findSale s (the saleId) of
           None \<Rightarrow> (sendResponse 404 ''Sale not found'' None, s)
         | Some existingSale \<Rightarrow>
             let oldStatus = sale_status existingSale in
               if \<not> isValidStatusTransition oldStatus (the status)
               then (sendResponse 400
                       (''Invalid status transition from '' @ statusName oldStatus @
                        '' to '' @ the status) None, s)
               else
                 (case updateSaleStatus_tx (the userId) (the saleId) (the status)
                         existingSale now s of
                    (Inl e, s1) \<Rightarrow> (updateSaleStatus_catch e, s1)
                  | (Inr updatedSale, s1) \<Rightarrow>
                      (sendResponse 200 ''Sale status updated successfully''
                         (Some (SaleResult updatedSale)),
                       createAuditLog (the userId) ''SALE_STATUS_UPDATE'' ''Sale''
                         (the saleId) s1))))"

section \<open>The core operations and their runs\<close>




section \<open>Two calls of stockOut at the same time\<close>

text \<open>
  A call of \<open>stockOut\<close> awaits the store three times: the read before the
  transaction, the read inside the transaction (\<open>tx.product.findUnique\<close>, a plain
  read that takes no lock), and the writes of the transaction with its commit. Between
  two awaits another call may run. The store gives each transaction at least read
  committed isolation: a read sees what has been committed, and the writes of a
  transaction appear together when it commits. \<open>StockOutCall\<close> is where a call stands:
  not started, after the first read (with the previous and the new stock it computed),
  inside the transaction after its read and checks, or done with its response.
\<close>

datatype StockOutCall =
    NotStarted
  | AfterRead int int
  | InTransaction int int
  | Done Response

definition stockOut_step ::
  "string option \<Rightarrow> string option \<Rightarrow> int option \<Rightarrow> string option \<Rightarrow> StockOutCall \<Rightarrow> db
     \<Rightarrow> StockOutCall \<times> db" where
  "stockOut_step userId productId quantity reason call s =
     (case call of
        NotStarted \<Rightarrow>
          if falsy_str userId then (Done (sendResponse 400 ''Authentication required'' None), s)
          else if falsy_str productId \<or> falsy_int quantity
            then (Done (sendResponse 400 ''Product ID and quantity are required'' None), s)
          else if the quantity \<le> 0
            then (Done (sendResponse 400 ''Quantity must be greater than 0'' None), s)
          else
            (case findActiveProduct s (the productId) of
               None \<Rightarrow> (Done (sendResponse 404 ''Product not found or inactive'' None), s)
             | Some product \<Rightarrow>
                 let previousStock = p_quantity product in
                   if previousStock < the quantity
                   then (Done (sendResponse 400 ''Insufficient stock'' None), s)
                   else (AfterRead previousStock (previousStock - the quantity), s))
      | AfterRead previousStock newStock \<Rightarrow>
          (case stockOut_txRead (the productId) (the quantity) s of
             Inl e \<Rightarrow> (Done (stockOut_catch e), s)
           | Inr lockedProduct \<Rightarrow> (InTransaction previousStock newStock, s))
      | InTransaction previousStock newStock \<Rightarrow>
          (case stockOut_txWrite (the userId) (the productId) (the quantity)
                  (case reason of None \<Rightarrow> ''Stock out'' | Some r \<Rightarrow> r)
                  previousStock newStock s of
             (Inl e, s1) \<Rightarrow> (Done (stockOut_catch e), s)
           | (Inr result, s1) \<Rightarrow>
               (Done (sendResponse 200 ''Stock removed successfully'' (Some result)),
                createAuditLog (the userId) ''STOCK_OUT'' ''Product'' (the productId) s1))
      | Done r \<Rightarrow> (Done r, s))"

text \<open>Two calls with the same request on one store. A schedule says which call takes
  each next step: \<open>True\<close> the first call, \<open>False\<close> the second.\<close>

fun two_calls ::
  "string option \<Rightarrow> string option \<Rightarrow> int option \<Rightarrow> string option \<Rightarrow> bool list
     \<Rightarrow> StockOutCall \<times> StockOutCall \<times> db \<Rightarrow> StockOutCall \<times> StockOutCall \<times> db" where
  "two_calls userId productId quantity reason [] c = c"
| "two_calls userId productId quantity reason (first # schedule) (a, b, s) =
     (if first
      then (case stockOut_step userId productId quantity reason a s of
              (a1, s1) \<Rightarrow> two_calls userId productId quantity reason schedule (a1, b, s1))
      else (case stockOut_step userId productId quantity reason b s of
              (b1, s1) \<Rightarrow> two_calls userId productId quantity reason schedule (a, b1, s1)))"

section \<open>Properties of the store\<close>













text \<open>The stock of a product id (0 when the store has no such product) and the stock
  of a finite set of product ids taken together.\<close>

definition stock :: "db \<Rightarrow> string \<Rightarrow> int" where
  "stock s pid = (case products s pid of None \<Rightarrow> 0 | Some p \<Rightarrow> p_quantity p)"





section \<open>A store to run the handlers on\<close>

definition pen :: Product where
  "pen = \<lparr>p_name = ''Pen'', p_sku = ''PEN-1'', p_quantity = 5, p_price = 999 / 100,
          p_costPrice = 4, p_isActive = True\<rparr>"

definition cup :: Product where
  "cup = \<lparr>p_name = ''Cup'', p_sku = ''CUP-1'', p_quantity = 10, p_price = 3,
          p_costPrice = 1, p_isActive = True\<rparr>"

definition earlier_sale :: Sale where
  "earlier_sale =
     \<lparr>sale_id = ''s0'', sale_saleNumber = ''SALE-1700000000000-007'',
      sale_totalAmount = 1998 / 100, sale_taxAmount = 0, sale_discount = 0,
      sale_finalAmount = 1998 / 100, sale_paymentMethod = CASH, sale_status = COMPLETED,
      sale_staffId = ''staff'', sale_customerId = None,
      sale_items = [\<lparr>item_productId = ''PEN'', item_quantity = 2,
                      item_unitPrice = 999 / 100, item_totalPrice = 1998 / 100\<rparr>,
                    \<lparr>item_productId = ''CUP'', item_quantity = 1,
                      item_unitPrice = 3, item_totalPrice = 3\<rparr>],
      sale_updatedAt = 0\<rparr>"

definition shop :: db where
  "shop = \<lparr>products = [''PEN'' \<mapsto> pen, ''CUP'' \<mapsto> cup], inventoryLogs = [],
           sales = [earlier_sale], customers = {}, auditLogs = []\<rparr>"



text \<open>Two calls of \<open>stockOut\<close> for 7 of the 10 cups, from the start, under a
  schedule; and the answer of a call: its status code and message once it is done.\<close>

definition cups_race :: "bool list \<Rightarrow> StockOutCall \<times> StockOutCall \<times> db" where
  "cups_race schedule =
     two_calls (Some ''admin'') (Some ''CUP'') (Some 7) None schedule
       (NotStarted, NotStarted, shop)"

definition answer :: "StockOutCall \<Rightarrow> (nat \<times> string) option" where
  "answer call = (case call of Done r \<Rightarrow> Some (statusCode r, message r) | _ \<Rightarrow> None)"


section \<open>Proofs\<close>


subsection \<open>The ledger entry point\<close>

text \<open>Run without interleaving, the two reads of \<open>createSaleInventoryLog\<close> see the
  same product, and the handler does what the TypeScript source does, and writes its
  audit row.\<close>

lemma createSaleInventoryLog_unfold:
  "createSaleInventoryLog productId quantity saleId userId type s =
     (case products s productId of
        None \<Rightarrow> (Inl (Error (''Product '' @ productId @ '' not found'')), s)
      | Some product \<Rightarrow>
          if type = SALE \<and> p_quantity product < quantity
          then (Inl (Error (''Insufficient stock for product '' @ productId)), s)
          else
            (Inr (),
             createAuditLog userId
               (if type = SALE then ''SALE_STOCK_UPDATE'' else ''RETURN_STOCK_UPDATE'')
               ''Product'' productId
               (snd (createSaleInventoryLog_ts productId quantity saleId userId type s))))"
  by (simp add: createSaleInventoryLog_def createSaleInventoryLog_tx_def
      createSaleInventoryLog_ts_def Let_def split: option.splits)


lemma createSaleInventoryLog_Inr:
  assumes "createSaleInventoryLog productId quantity saleId userId type s = (Inr u, s')"
  shows "\<exists>p. products s productId = Some p \<and> \<not> (type = SALE \<and> p_quantity p < quantity) \<and>
           products s' = (products s)(productId \<mapsto> p\<lparr>p_quantity :=
             (if type = SALE then p_quantity p - quantity
              else if type = RETURN then p_quantity p + quantity else p_quantity p)\<rparr>) \<and>
           inventoryLogs s' = inventoryLogs s @
             [\<lparr>log_type = type, log_quantity = quantity, log_previousStock = p_quantity p,
               log_newStock = (if type = SALE then p_quantity p - quantity
                 else if type = RETURN then p_quantity p + quantity else p_quantity p),
               log_reason = (if type = SALE then ''Sale'' else ''Product return''),
               log_productId = productId, log_performedById = userId,
               log_saleId = Some saleId\<rparr>] \<and>
           sales s' = sales s \<and> customers s' = customers s"
  using assms
  by (auto simp: createSaleInventoryLog_unfold createSaleInventoryLog_ts_def createAuditLog_def
      Let_def split: option.splits if_splits)


subsection \<open>Log entries and the stock\<close>







lemma findActiveProduct_Some:
  "findActiveProduct s pid = Some p \<Longrightarrow> products s pid = Some p \<and> p_isActive p"
  by (auto simp: findActiveProduct_def split: option.splits if_splits)












subsection \<open>Quantities are never negative\<close>

lemma createSaleInventoryLog_sales:
  "sales (snd (createSaleInventoryLog productId quantity saleId userId type s)) = sales s"
  by (auto simp: createSaleInventoryLog_unfold createSaleInventoryLog_ts_def createAuditLog_def
      Let_def split: option.splits)


lemma inventoryLoop_sales:
  "sales (snd (inventoryLoop saleId userId type pairs s)) = sales s"
proof (induction pairs arbitrary: s)
  case Nil
  then show ?case by simp
next
  case (Cons a pairs)
  obtain productId quantity where a: "a = (productId, quantity)" by (cases a)
  show ?case
    using Cons.IH createSaleInventoryLog_sales[of productId quantity saleId userId type s]
    by (auto simp: a split: prod.splits sum.splits)
qed










lemma findSale_Some: "findSale s i = Some x \<Longrightarrow> x \<in> set (sales s) \<and> sale_id x = i"
  by (auto simp: findSale_def find_Some_iff)








subsection \<open>The two variants of the inventory handlers\<close>

lemma stockIn_js_ts:
  "fst (stockIn userId productId quantity reason costPrice s) =
     fst (stockIn_ts userId productId quantity reason costPrice s) \<and>
   products (snd (stockIn userId productId quantity reason costPrice s)) =
     products (snd (stockIn_ts userId productId quantity reason costPrice s)) \<and>
   inventoryLogs (snd (stockIn userId productId quantity reason costPrice s)) =
     inventoryLogs (snd (stockIn_ts userId productId quantity reason costPrice s))"
  by (auto simp: stockIn_def stockIn_ts_def stockIn_tx_def stockIn_ts_tx_def Let_def
      stockIn_catch_def createAuditLog_def dest: findActiveProduct_Some split: option.splits)

lemma stockOut_js_ts:
  "fst (stockOut userId productId quantity reason s) =
     fst (stockOut_ts userId productId quantity reason s) \<and>
   products (snd (stockOut userId productId quantity reason s)) =
     products (snd (stockOut_ts userId productId quantity reason s)) \<and>
   inventoryLogs (snd (stockOut userId productId quantity reason s)) =
     inventoryLogs (snd (stockOut_ts userId productId quantity reason s))"
  by (auto simp: stockOut_def stockOut_ts_def stockOut_tx_def stockOut_txRead_def
      stockOut_txWrite_def stockOut_ts_tx_def Let_def
      stockOut_catch_def createAuditLog_def dest: findActiveProduct_Some split: option.splits)

lemma createSaleInventoryLog_js_ts:
  "fst (createSaleInventoryLog productId quantity saleId userId type s) =
     fst (createSaleInventoryLog_ts productId quantity saleId userId type s) \<and>
   products (snd (createSaleInventoryLog productId quantity saleId userId type s)) =
     products (snd (createSaleInventoryLog_ts productId quantity saleId userId type s)) \<and>
   inventoryLogs (snd (createSaleInventoryLog productId quantity saleId userId type s)) =
     inventoryLogs (snd (createSaleInventoryLog_ts productId quantity saleId userId type s))"
  by (auto simp: createSaleInventoryLog_unfold createSaleInventoryLog_ts_def Let_def
      createAuditLog_def split: option.splits)

text \<open>
  C10. Run from start to end with nothing interleaved, from the same store and with the
  same arguments, the compiled JavaScript variant (previous and new stock from the read
  before the transaction) and the TypeScript variant (from the read inside it) of
  \<open>stockIn\<close>, \<open>stockOut\<close> and \<open>createSaleInventoryLog\<close> give the same outcome (the
  same response with the same product and log entry, or the same exception), the same
  products and the same inventory log.
\<close>

theorem js_ts_variants_agree:
  "(fst (stockIn userId productId quantity reason costPrice s) =
      fst (stockIn_ts userId productId quantity reason costPrice s) \<and>
    products (snd (stockIn userId productId quantity reason costPrice s)) =
      products (snd (stockIn_ts userId productId quantity reason costPrice s)) \<and>
    inventoryLogs (snd (stockIn userId productId quantity reason costPrice s)) =
      inventoryLogs (snd (stockIn_ts userId productId quantity reason costPrice s))) \<and>
   (fst (stockOut userId productId quantity reason s) =
      fst (stockOut_ts userId productId quantity reason s) \<and>
    products (snd (stockOut userId productId quantity reason s)) =
      products (snd (stockOut_ts userId productId quantity reason s)) \<and>
    inventoryLogs (snd (stockOut userId productId quantity reason s)) =
      inventoryLogs (snd (stockOut_ts userId productId quantity reason s))) \<and>
   (fst (createSaleInventoryLog pid q saleId uid type s) =
      fst (createSaleInventoryLog_ts pid q saleId uid type s) \<and>
    products (snd (createSaleInventoryLog pid q saleId uid type s)) =
      products (snd (createSaleInventoryLog_ts pid q saleId uid type s)) \<and>
    inventoryLogs (snd (createSaleInventoryLog pid q saleId uid type s)) =
      inventoryLogs (snd (createSaleInventoryLog_ts pid q saleId uid type s)))"
  using stockIn_js_ts[of userId productId quantity reason costPrice s]
    stockOut_js_ts[of userId productId quantity reason s]
    createSaleInventoryLog_js_ts[of pid q saleId uid type s]
  by simp

theorem js_ts_variants_agree_witness:
  "fst (stockOut (Some ''admin'') (Some ''PEN'') (Some 7) None shop) =
     fst (stockOut_ts (Some ''admin'') (Some ''PEN'') (Some 7) None shop) \<and>
   fst (stockOut_ts (Some ''admin'') (Some ''PEN'') (Some 7) None shop) =
     sendResponse 400 ''Insufficient stock'' None \<and>
   inventoryLogs (snd (stockIn (Some ''admin'') (Some ''PEN'') (Some 7) None None shop)) =
     inventoryLogs (snd (stockIn_ts (Some ''admin'') (Some ''PEN'') (Some 7) None None shop)) \<and>
   map log_newStock
     (inventoryLogs (snd (stockIn_ts (Some ''admin'') (Some ''PEN'') (Some 7) None None shop))) =
     [12]"
proof -
  have a: "fst (stockOut_ts (Some ''admin'') (Some ''PEN'') (Some 7) None shop) =
     sendResponse 400 ''Insufficient stock'' None"
    by code_simp
  have b: "map log_newStock
     (inventoryLogs (snd (stockIn_ts (Some ''admin'') (Some ''PEN'') (Some 7) None None shop))) =
     [12]"
    by code_simp
  from js_ts_variants_agree[of "Some ''admin''" "Some ''PEN''" "Some 7" None None shop
      "''PEN''" 1 "''s0''" "''admin''" SALE] a b
  show ?thesis by simp
qed


subsection \<open>Status changes\<close>


lemma parseStatus_statusName [simp]: "parseStatus (statusName st) = Some st"
  by (cases st) (simp_all add: parseStatus_def statusName_def)


lemma find_map_update:
  assumes "\<And>x. key (f x) = key x"
  shows "List.find (\<lambda>x. key x = i) (map (\<lambda>x. if key x = i then f x else x) xs) =
         map_option f (List.find (\<lambda>x. key x = i) xs)"
  using assms by (induction xs) auto

lemma filter_map_update:
  assumes "\<And>x. key (f x) = key x"
  shows "filter (\<lambda>x. key x \<noteq> i) (map (\<lambda>x. if key x = i then f x else x) xs) =
         filter (\<lambda>x. key x \<noteq> i) xs"
  using assms by (induction xs) auto

lemma not_success [simp]:
  "\<not> success (sendResponse 400 m d)" "\<not> success (sendResponse 404 m d)"
  "\<not> success (sendResponse 500 m d)" "success (sendResponse 200 m d)"
  "success (sendResponse 201 m d)"
  by (simp_all add: success_def sendResponse_def)

lemma updateSaleStatus_catch_fails [simp]: "\<not> success (updateSaleStatus_catch e)"
  by (cases e) (simp_all add: updateSaleStatus_catch_def)

lemma updateSaleStatus_tx_Inr:
  assumes "updateSaleStatus_tx u i st ex now s = (Inr sale', s')"
  shows "\<exists>row to s1. findSale s i = Some row \<and> parseStatus st = Some to \<and>
           sale' = row\<lparr>sale_status := to, sale_updatedAt := now\<rparr> \<and>
           (if st = ''REFUNDED'' \<or> st = ''CANCELLED''
            then inventoryLoop i u RETURN
                   (map (\<lambda>item. (item_productId item, item_quantity item)) (sale_items ex)) s
                 = (Inr (), s1)
            else s1 = s) \<and>
           s' = s1\<lparr>sales := map (\<lambda>x. if sale_id x = i
                                     then x\<lparr>sale_status := to, sale_updatedAt := now\<rparr>
                                     else x) (sales s1)\<rparr>"
  using assms
  by (auto simp: updateSaleStatus_tx_def Let_def split: option.splits prod.splits sum.splits
      if_splits dest: findSale_Some)

lemma updateSaleStatus_success:
  assumes "updateSaleStatus userId saleId status now s = (r, s')" and "success r"
  shows "\<exists>u i st to sale s1.
           userId = Some u \<and> u \<noteq> [] \<and> saleId = Some i \<and> i \<noteq> [] \<and> status = Some st \<and>
           findSale s i = Some sale \<and> isValidStatusTransition (sale_status sale) st \<and>
           parseStatus st = Some to \<and>
           (if st = ''REFUNDED'' \<or> st = ''CANCELLED''
            then inventoryLoop i u RETURN
                   (map (\<lambda>item. (item_productId item, item_quantity item)) (sale_items sale)) s
                 = (Inr (), s1)
            else s1 = s) \<and>
           r = sendResponse 200 ''Sale status updated successfully''
                 (Some (SaleResult (sale\<lparr>sale_status := to, sale_updatedAt := now\<rparr>))) \<and>
           s' = createAuditLog u ''SALE_STATUS_UPDATE'' ''Sale'' i
                  (s1\<lparr>sales := map (\<lambda>x. if sale_id x = i
                                     then x\<lparr>sale_status := to, sale_updatedAt := now\<rparr>
                                     else x) (sales s1)\<rparr>)"
proof -
  from assms have u: "\<not> falsy_str userId" and i: "\<not> falsy_str saleId" and st: "\<not> falsy_str status"
    by (auto simp: updateSaleStatus_def split: if_splits)
  then obtain u' i' st' where v: "userId = Some u'" "u' \<noteq> []" "saleId = Some i'" "i' \<noteq> []"
    "status = Some st'" "st' \<noteq> []"
    by (auto simp: falsy_str_def split: option.splits)
  from assms v obtain sale where sale: "findSale s i' = Some sale"
    by (auto simp: updateSaleStatus_def falsy_str_def split: option.splits if_splits)
  from assms v sale have valid: "isValidStatusTransition (sale_status sale) st'"
    by (auto simp: updateSaleStatus_def falsy_str_def Let_def split: if_splits)
  obtain res s2 where tx: "updateSaleStatus_tx u' i' st' sale now s = (res, s2)"
    by (cases "updateSaleStatus_tx u' i' st' sale now s")
  from assms v sale valid tx obtain sale' where res: "res = Inr sale'"
    by (cases res) (auto simp: updateSaleStatus_def falsy_str_def Let_def)
  from updateSaleStatus_tx_Inr[OF tx[unfolded res]] sale
  obtain to s1 where
    "parseStatus st' = Some to" "sale' = sale\<lparr>sale_status := to, sale_updatedAt := now\<rparr>"
    "if st' = ''REFUNDED'' \<or> st' = ''CANCELLED''
     then inventoryLoop i' u' RETURN
            (map (\<lambda>item. (item_productId item, item_quantity item)) (sale_items sale)) s
          = (Inr (), s1)
     else s1 = s"
    "s2 = s1\<lparr>sales := map (\<lambda>x. if sale_id x = i'
                                     then x\<lparr>sale_status := to, sale_updatedAt := now\<rparr>
                                     else x) (sales s1)\<rparr>"
    by auto
  with assms(1) v sale valid tx res show ?thesis
    by (intro exI[of _ u'] exI[of _ i'] exI[of _ st'] exI[of _ to] exI[of _ sale] exI[of _ s1])
      (auto simp: updateSaleStatus_def falsy_str_def Let_def)
qed










text \<open>
  C9. A successful \<open>updateSaleStatus\<close> on an existing sale changes, of that sale,
  only the status and the update time: the sale number, the amounts, the payment method,
  the staff and customer references and the line items (so their quantities, unit prices
  and totals) are as before, in the store and in the response; every other sale is as
  before.
\<close>

theorem status_update_frame:
  assumes "updateSaleStatus userId (Some saleId) status now s = (r, s')"
    and "success r" and "findSale s saleId = Some sale"
  shows "\<exists>sale'. findSale s' saleId = Some sale' \<and> data r = Some (SaleResult sale') \<and>
           sale_updatedAt sale' = now \<and>
           sale_id sale' = sale_id sale \<and>
           sale_saleNumber sale' = sale_saleNumber sale \<and>
           sale_totalAmount sale' = sale_totalAmount sale \<and>
           sale_taxAmount sale' = sale_taxAmount sale \<and>
           sale_discount sale' = sale_discount sale \<and>
           sale_finalAmount sale' = sale_finalAmount sale \<and>
           sale_paymentMethod sale' = sale_paymentMethod sale \<and>
           sale_staffId sale' = sale_staffId sale \<and>
           sale_customerId sale' = sale_customerId sale \<and>
           sale_items sale' = sale_items sale \<and>
           filter (\<lambda>x. sale_id x \<noteq> saleId) (sales s') =
             filter (\<lambda>x. sale_id x \<noteq> saleId) (sales s)"
proof -
  from updateSaleStatus_success[OF assms(1,2)] assms(3)
  obtain u st to s1 where
    loop: "if st = ''REFUNDED'' \<or> st = ''CANCELLED''
           then inventoryLoop saleId u RETURN
                  (map (\<lambda>item. (item_productId item, item_quantity item)) (sale_items sale)) s
                = (Inr (), s1)
           else s1 = s"
    and r: "r = sendResponse 200 ''Sale status updated successfully''
                 (Some (SaleResult (sale\<lparr>sale_status := to, sale_updatedAt := now\<rparr>)))"
    and s': "s' = createAuditLog u ''SALE_STATUS_UPDATE'' ''Sale'' saleId
                  (s1\<lparr>sales := map (\<lambda>x. if sale_id x = saleId
                                     then x\<lparr>sale_status := to, sale_updatedAt := now\<rparr>
                                     else x) (sales s1)\<rparr>)"
    by auto
  have "sales s1 = sales s"
    using loop inventoryLoop_sales[of saleId u RETURN
        "map (\<lambda>item. (item_productId item, item_quantity item)) (sale_items sale)" s]
    by (auto split: if_splits)
  then have sales: "sales s' = map (\<lambda>x. if sale_id x = saleId
        then x\<lparr>sale_status := to, sale_updatedAt := now\<rparr> else x) (sales s)"
    using s' by (simp add: createAuditLog_def)
  have "findSale s' saleId = Some (sale\<lparr>sale_status := to, sale_updatedAt := now\<rparr>)"
    using assms(3)
      find_map_update[of sale_id "\<lambda>x. x\<lparr>sale_status := to, sale_updatedAt := now\<rparr>"
        saleId "sales s"]
    by (simp add: findSale_def sales)
  moreover have "filter (\<lambda>x. sale_id x \<noteq> saleId) (sales s') =
      filter (\<lambda>x. sale_id x \<noteq> saleId) (sales s)"
    using filter_map_update[of sale_id "\<lambda>x. x\<lparr>sale_status := to, sale_updatedAt := now\<rparr>"
        saleId "sales s"]
    by (simp add: sales)
  ultimately show ?thesis using r by (simp add: sendResponse_def)
qed

theorem status_update_frame_witness:
  "success (fst (updateSaleStatus (Some ''admin'') (Some ''s0'') (Some ''REFUNDED'') 2 shop)) \<and>
   findSale shop ''s0'' = Some earlier_sale \<and>
   map_option sale_items
     (findSale (snd (updateSaleStatus (Some ''admin'') (Some ''s0'') (Some ''REFUNDED'') 2 shop))
        ''s0'') = Some (sale_items earlier_sale) \<and>
   map_option sale_status
     (findSale (snd (updateSaleStatus (Some ''admin'') (Some ''s0'') (Some ''REFUNDED'') 2 shop))
        ''s0'') = Some REFUNDED"
proof -
  obtain r s' where a:
    "updateSaleStatus (Some ''admin'') (Some ''s0'') (Some ''REFUNDED'') 2 shop = (r, s')"
    by (cases "updateSaleStatus (Some ''admin'') (Some ''s0'') (Some ''REFUNDED'') 2 shop")
  have b: "success (fst (updateSaleStatus (Some ''admin'') (Some ''s0'') (Some ''REFUNDED'') 2 shop))"
    by code_simp
  have c: "findSale shop ''s0'' = Some earlier_sale"
    by (simp add: findSale_def shop_def earlier_sale_def)
  have d: "map_option sale_status
     (findSale (snd (updateSaleStatus (Some ''admin'') (Some ''s0'') (Some ''REFUNDED'') 2 shop))
        ''s0'') = Some REFUNDED"
    by code_simp
  from b a have "success r" by simp
  from status_update_frame[OF a this c] a b c d show ?thesis by auto
qed


subsection \<open>Refunds\<close>





subsection \<open>Sale creation\<close>


lemma createSale_catch_fails [simp]: "\<not> success (createSale_catch e)"
  by (simp add: createSale_catch_def)







subsection \<open>Quantities of log entries\<close>














subsection \<open>A sale that fails after its first ledger call\<close>

text \<open>When the stock check of the first loop refuses the sale, nothing has been written.\<close>

lemma createSale_refused_by_stock_check:
  "saleItemsLoop s items 0 [] = Inl e \<Longrightarrow>
     snd (createSale userId customerId items paymentMethod taxAmount discount saleNumber
            sid now s) = s"
  by (simp add: createSale_def createSale_tx_def)

text \<open>When no product stands on two lines of the request, every ledger call finds the
  stock the first loop has checked, and a sale that fails leaves the store as it was.\<close>

lemma saleItemsLoop_checked:
  "saleItemsLoop s items tot acc = Inr res \<Longrightarrow>
     \<forall>item \<in> set items. \<exists>p. products s (in_productId item) = Some p \<and>
        in_quantity item \<le> p_quantity p"
proof (induction items arbitrary: tot acc)
  case Nil
  then show ?case by simp
next
  case (Cons item items)
  from Cons.prems obtain p where p: "findActiveProduct s (in_productId item) = Some p"
    and q: "\<not> p_quantity p < in_quantity item"
    by (auto split: option.splits if_splits)
  with Cons.prems obtain tot1 acc1 where "saleItemsLoop s items tot1 acc1 = Inr res"
    by (auto simp: Let_def)
  from Cons.IH[OF this] p q show ?case
    by (auto dest: findActiveProduct_Some)
qed

lemma inventoryLoop_sale_distinct:
  assumes "distinct (map fst pairs)"
    and "\<forall>(pid, q) \<in> set pairs. \<exists>p. products s pid = Some p \<and> q \<le> p_quantity p"
  shows "fst (inventoryLoop saleId userId SALE pairs s) = Inr ()"
  using assms
proof (induction pairs arbitrary: s)
  case Nil
  then show ?case by simp
next
  case (Cons a pairs)
  obtain productId quantity where a: "a = (productId, quantity)" by (cases a)
  with Cons.prems obtain p where p: "products s productId = Some p" "quantity \<le> p_quantity p"
    by auto
  obtain r s1 where c: "createSaleInventoryLog productId quantity saleId userId SALE s = (r, s1)"
    by (cases "createSaleInventoryLog productId quantity saleId userId SALE s")
  with p have r: "r = Inr ()"
    by (auto simp: createSaleInventoryLog_unfold)
  with c have "createSaleInventoryLog productId quantity saleId userId SALE s = (Inr (), s1)"
    by simp
  from createSaleInventoryLog_Inr[OF this] p
  have s1: "products s1 = (products s)(productId \<mapsto> p\<lparr>p_quantity := p_quantity p - quantity\<rparr>)"
    by simp
  have "\<forall>(pid, q) \<in> set pairs. \<exists>p. products s1 pid = Some p \<and> q \<le> p_quantity p"
    using Cons.prems a s1 by (auto simp: rev_image_eqI)
  moreover have "distinct (map fst pairs)" using Cons.prems by simp
  ultimately have "fst (inventoryLoop saleId userId SALE pairs s1) = Inr ()"
    by (rule Cons.IH[rotated])
  with a c r show ?case by simp
qed

lemma createSale_distinct_products_atomic:
  assumes "distinct (map in_productId items)"
    and "createSale userId customerId items paymentMethod taxAmount discount saleNumber
           sid now s = (r, s')"
    and "\<not> success r"
  shows "s' = s"
proof -
  let ?tx = "createSale_tx (the userId) customerId items (the paymentMethod)
      (case taxAmount of None \<Rightarrow> 0 | Some v \<Rightarrow> v)
      (case discount of None \<Rightarrow> 0 | Some v \<Rightarrow> v) saleNumber sid now s"
  let ?pairs = "map (\<lambda>item. (in_productId item, in_quantity item)) items"
  have tx: "snd ?tx = s \<or> (\<exists>sale. fst ?tx = Inr sale)"
  proof (cases "saleItemsLoop s items 0 []")
    case (Inl e)
    then show ?thesis by (simp add: createSale_tx_def)
  next
    case (Inr res)
    from saleItemsLoop_checked[OF Inr]
    have "\<forall>(pid, q) \<in> set ?pairs. \<exists>p. products s pid = Some p \<and> q \<le> p_quantity p"
      by auto
    moreover have "distinct (map fst ?pairs)" using assms(1) by (simp add: o_def)
    ultimately have "fst (inventoryLoop sid (the userId) SALE ?pairs s) = Inr ()"
      by (rule inventoryLoop_sale_distinct[rotated])
    with Inr show ?thesis
      by (cases "inventoryLoop sid (the userId) SALE ?pairs s")
        (auto simp: createSale_tx_def Let_def split: prod.splits)
  qed
  obtain res s1 where eq: "?tx = (res, s1)" by (cases ?tx)
  with tx assms(2,3) show ?thesis
    by (cases res) (auto simp: createSale_def split: if_splits)
qed


subsection \<open>Two calls of stockOut\<close>

lemma stockOut_as_steps:
  "(case stockOut_step userId productId quantity reason NotStarted s of
      (c1, s1) \<Rightarrow>
        (case stockOut_step userId productId quantity reason c1 s1 of
           (c2, s2) \<Rightarrow> stockOut_step userId productId quantity reason c2 s2)) =
   (Done (fst (stockOut userId productId quantity reason s)),
    snd (stockOut userId productId quantity reason s))"
  by (auto simp: stockOut_step_def stockOut_def stockOut_tx_def stockOut_txRead_def
      stockOut_txWrite_def Let_def dest: findActiveProduct_Some
      split: option.splits sum.splits prod.splits)

text \<open>
  C8. The claim does not hold of \<open>stockOut\<close>. Two calls for 7 of the 10 cups, each
  taking its steps in turn: both read 10 before their transactions, both transactions
  read 10 and pass the check, the first writes 3 and commits, the second writes 3 and
  commits. Both calls answer 200, the store holds 3 cups, and the log has two
  STOCK_OUT entries of 7 from 10 to 3.
\<close>

theorem stockOut_two_calls_both_succeed:
  "stock shop ''CUP'' = 10 \<and>
   (case cups_race [True, False, True, False, True, False] of
      (a, b, s) \<Rightarrow>
        answer a = Some (200, ''Stock removed successfully'') \<and>
        answer b = Some (200, ''Stock removed successfully'') \<and>
        stock s ''CUP'' = 3 \<and>
        map (\<lambda>e. (log_type e, log_quantity e, log_previousStock e, log_newStock e))
          (inventoryLogs s) = [(STOCK_OUT, 7, 10, 3), (STOCK_OUT, 7, 10, 3)])"
  by code_simp

text \<open>One call after the other, the second call is refused and the store holds 3 cups,
  as the claim says.\<close>

lemma stockOut_two_calls_in_sequence:
  "(case cups_race [True, True, True, False, False, False] of
      (a, b, s) \<Rightarrow>
        answer a = Some (200, ''Stock removed successfully'') \<and>
        answer b = Some (400, ''Insufficient stock'') \<and>
        stock s ''CUP'' = 3 \<and>
        map (\<lambda>e. (log_type e, log_quantity e, log_previousStock e, log_newStock e))
          (inventoryLogs s) = [(STOCK_OUT, 7, 10, 3)])"
  by code_simp

end
